theory Spec2Isabelle
  imports Complex_Main "HOL-Library.AList"
begin

section \<open>Python values used by \<open>app/helper.py\<close>\<close>

text \<open>
  A Python \<open>str\<close> is a sequence of code points. The embedding uses \<^typ>\<open>string\<close> and
  reads a \<^typ>\<open>char\<close> as one code point below 256 (Latin-1); every key and category name
  of the program is ASCII. A finite Python \<open>float\<close> or \<open>int\<close> is a \<^typ>\<open>real\<close>: the
  arithmetic of the helper (one division by 14, comparisons, \<open>round\<close>, \<open>int\<close>) is read
  exactly, so \<open>8 / 14\<close> stands for the double nearest to it.
\<close>

subsection \<open>\<open>str.strip\<close>, \<open>str.lower\<close>, \<open>str.replace\<close>, \<open>str.split\<close>\<close>

definition is_space :: "char \<Rightarrow> bool" where
  \<comment> \<open>\<open>str.isspace\<close> on the code points below 256: TAB..CR, FS..US, SPACE, NEL, NBSP\<close>
  "is_space c = (let n = (of_char c :: nat) in
     (9 \<le> n \<and> n \<le> 13) \<or> (28 \<le> n \<and> n \<le> 32) \<or> n = 133 \<or> n = 160)"

definition strip :: "string \<Rightarrow> string" where
  "strip s = rev (dropWhile is_space (rev (dropWhile is_space s)))"

definition lower_char :: "char \<Rightarrow> char" where
  \<comment> \<open>A..Z and the Latin-1 capitals 0xC0..0xDE (without the sign 0xD7) move up by 32\<close>
  "lower_char c = (let n = (of_char c :: nat) in
     if (65 \<le> n \<and> n \<le> 90) \<or> (192 \<le> n \<and> n \<le> 222 \<and> n \<noteq> 215)
     then char_of (n + 32) else c)"

definition lower :: "string \<Rightarrow> string" where
  "lower s = map lower_char s"

definition replace_comma :: "string \<Rightarrow> string" where
  \<comment> \<open>\<open>s.replace(",", " & ")\<close>\<close>
  "replace_comma s = concat (map (\<lambda>c. if c = CHR '','' then '' & '' else [c]) s)"

fun split_amp :: "string \<Rightarrow> string \<Rightarrow> string list" where
  \<comment> \<open>\<open>s.split(" & ")\<close>: leftmost non-overlapping occurrences; \<open>cur\<close> is the piece
      being read, reversed\<close>
  "split_amp cur [] = [rev cur]"
| "split_amp cur (c # cs) =
     (if take 3 (c # cs) = '' & '' then rev cur # split_amp [] (drop 2 cs)
      else split_amp (c # cur) cs)"

subsection \<open>\<open>round\<close> and \<open>int\<close> on a float\<close>

datatype pyfloat = Finite real | NaN | PosInf | NegInf

datatype error =
    FileNotFoundError string    \<comment> \<open>\<open>_load_artifact\<close>: the path does not exist\<close>
  | LoadError string            \<comment> \<open>\<open>joblib.load\<close> raised\<close>
  | ModelsUnavailable           \<comment> \<open>\<open>RuntimeError("Models not loaded. ...")\<close> of \<open>predict\<close>\<close>
  | ScalerFormatError           \<comment> \<open>\<open>ValueError\<close> of \<open>_ensure_scaler_format\<close>\<close>
  | SchemaMismatch "string list"  \<comment> \<open>\<open>ValueError("Scaler expects columns ...")\<close>, with \<open>missing\<close>\<close>
  | ShapeMismatch               \<comment> \<open>pandas: "Columns must be same length as key"\<close>
  | KeyError string             \<comment> \<open>pandas: a column label that the frame does not have\<close>
  | RoundNaN                    \<comment> \<open>\<open>round(nan)\<close>: ValueError\<close>
  | RoundInf                    \<comment> \<open>\<open>round(inf)\<close>: OverflowError\<close>

definition py_round_real :: "real \<Rightarrow> int" where
  \<comment> \<open>\<open>round(x)\<close> of a finite float: the nearest integer, a tie goes to the even one\<close>
  "py_round_real x = (let f = \<lfloor>x\<rfloor>; d = x - of_int f in
     if d < 1 / 2 then f
     else if 1 / 2 < d then f + 1
     else if even f then f else f + 1)"

fun py_round :: "pyfloat \<Rightarrow> error + int" where
  "py_round (Finite x) = Inr (py_round_real x)"
| "py_round NaN = Inl RoundNaN"
| "py_round PosInf = Inl RoundInf"
| "py_round NegInf = Inl RoundInf"

definition py_int :: "real \<Rightarrow> int" where
  \<comment> \<open>\<open>int(x)\<close> of a finite number: truncation towards zero\<close>
  "py_int x = (if 0 \<le> x then \<lfloor>x\<rfloor> else \<lceil>x\<rceil>)"

section \<open>The risk score\<close>

definition RISK_SCORES :: "(string \<times> int) list" where
  "RISK_SCORES =
     [(''diabetes'', 6), (''heart disease'', 8), (''high blood pressure'', 6),
      (''thyroid'', 5), (''no disease'', 0), (''none'', 0)]"

definition dict_get :: "('k \<times> 'v) list \<Rightarrow> 'k \<Rightarrow> 'v \<Rightarrow> 'v" where
  \<comment> \<open>\<open>d.get(k, default)\<close>\<close>
  "dict_get d k dflt = (case map_of d k of None \<Rightarrow> dflt | Some v \<Rightarrow> v)"

definition calculate_normalized_risk :: "string \<Rightarrow> real" where
  "calculate_normalized_risk medical_history =
     (if strip medical_history = [] then 0
      else
        let parts = map (\<lambda>p. lower (strip p)) (split_amp [] (replace_comma medical_history));
            total = sum_list (map (\<lambda>p. dict_get RISK_SCORES p 0) parts);
            max_score = (14 :: int);
            normalized = (if max_score > 0 then of_int total / of_int max_score else 0)
        in min (max normalized 0) 1)"

subsection \<open>The score as the specification words it\<close>

fun spec_split :: "string \<Rightarrow> string \<Rightarrow> string list" where
  \<comment> \<open>split on \<open>" & "\<close> or \<open>","\<close>, read from the left\<close>
  "spec_split cur [] = [rev cur]"
| "spec_split cur (c # cs) =
     (if take 3 (c # cs) = '' & '' then rev cur # spec_split [] (drop 2 cs)
      else if c = CHR '','' then rev cur # spec_split [] cs
      else spec_split (c # cur) cs)"

definition spec_token_score :: "string \<Rightarrow> int" where
  "spec_token_score t =
     (if t = ''diabetes'' then 6
      else if t = ''heart disease'' then 8
      else if t = ''high blood pressure'' then 6
      else if t = ''thyroid'' then 5
      else 0)"

definition spec_normalized_risk :: "string \<Rightarrow> real" where
  "spec_normalized_risk s =
     min 1 (max 0
       (of_int (sum_list (map (\<lambda>t. spec_token_score (lower (strip t))) (spec_split [] s))) / 14))"

fun amp_comma_free :: "string \<Rightarrow> bool" where
  \<comment> \<open>no \<open>" &"\<close> is directly followed by \<open>","\<close>\<close>
  "amp_comma_free [] = True"
| "amp_comma_free (c # cs) = (take 3 (c # cs) \<noteq> '' &,'' \<and> amp_comma_free cs)"

section \<open>The one-row DataFrame\<close>

text \<open>
  \<open>preprocess_input\<close> works on a DataFrame with the single row 0. A frame is the list of
  its column labels, in order, each with the cell of row 0. A cell holds the number that
  was assigned to it; column dtypes are not part of the embedding.
\<close>

type_synonym frame = "(string \<times> real) list"

definition EXPECTED_COLUMNS :: "string list" where
  "EXPECTED_COLUMNS =
     [''age'', ''number_of_dependants'', ''income_lakhs'', ''insurance_plan'',
      ''genetical_risk'', ''normalized_risk_score'', ''gender_Male'',
      ''region_Northwest'', ''region_Southeast'', ''region_Southwest'',
      ''marital_status_Unmarried'', ''bmi_category_Obesity'', ''bmi_category_Overweight'',
      ''bmi_category_Underweight'', ''smoking_status_Occasional'', ''smoking_status_Regular'',
      ''employment_status_Salaried'', ''employment_status_Self-Employed'']"

definition INSURANCE_ENCODING :: "(string \<times> int) list" where
  "INSURANCE_ENCODING = [(''Bronze'', 1), (''Silver'', 2), (''Gold'', 3)]"

definition new_frame :: "string list \<Rightarrow> frame" where
  \<comment> \<open>\<open>pd.DataFrame(0, index=[0], columns=cols)\<close>\<close>
  "new_frame cols = map (\<lambda>c. (c, 0)) cols"

definition columns :: "frame \<Rightarrow> string list" where
  "columns df = map fst df"

definition set_at :: "string \<Rightarrow> real \<Rightarrow> frame \<Rightarrow> frame" where
  \<comment> \<open>\<open>df.at[0, c] = v\<close>: the cell is replaced; a new label would be appended\<close>
  "set_at c v df = AList.update c v df"

definition get_at :: "frame \<Rightarrow> string \<Rightarrow> error + real" where
  \<comment> \<open>\<open>df.at[0, c]\<close>\<close>
  "get_at df c = (case map_of df c of None \<Rightarrow> Inl (KeyError c) | Some v \<Rightarrow> Inr v)"

fun select_columns :: "frame \<Rightarrow> string list \<Rightarrow> error + real list" where
  \<comment> \<open>\<open>df[cols]\<close>, the cells of row 0 in the order of \<open>cols\<close>\<close>
  "select_columns df [] = Inr []"
| "select_columns df (c # cs) =
     (case get_at df c of
        Inl e \<Rightarrow> Inl e
      | Inr v \<Rightarrow> (case select_columns df cs of Inl e \<Rightarrow> Inl e | Inr vs \<Rightarrow> Inr (v # vs)))"

definition assign_columns :: "frame \<Rightarrow> string list \<Rightarrow> real list \<Rightarrow> error + frame" where
  \<comment> \<open>\<open>df[cols] = values\<close>: one column after the other, the widths must agree\<close>
  "assign_columns df cols vals =
     (if length vals \<noteq> length cols then Inl ShapeMismatch
      else Inr (fold (\<lambda>(c, v). set_at c v) (zip cols vals) df))"

section \<open>The input record\<close>

text \<open>
  \<open>input_dict\<close> maps the twelve keys of the form to values; a field is \<open>None\<close> when the
  key is missing. Numeric fields hold a number, the categorical ones a string.
\<close>

record input_record =
  Age :: "real option"
  Number_of_Dependants :: "real option"
  Income_in_Lakhs :: "real option"
  Genetical_Risk :: "real option"
  Insurance_Plan :: "string option"
  Employment_Status :: "string option"
  Gender :: "string option"
  Marital_Status :: "string option"
  BMI_Category :: "string option"
  Smoking_Status :: "string option"
  Region :: "string option"
  Medical_History :: "string option"

definition get_or :: "'a option \<Rightarrow> 'a \<Rightarrow> 'a" where
  \<comment> \<open>\<open>input_dict.get(key, default)\<close>\<close>
  "get_or v dflt = (case v of None \<Rightarrow> dflt | Some x \<Rightarrow> x)"

text \<open>
  The statements of \<open>preprocess_input\<close> up to the risk score, one definition for each
  group of lines; \<open>encode_fields\<close> runs them in the order of the source.
\<close>

definition encode_numeric :: "input_record \<Rightarrow> frame \<Rightarrow> frame" where
  "encode_numeric input_dict df =
     (let df = set_at ''age'' (of_int (py_int (get_or (Age input_dict) 0))) df;
          df = set_at ''number_of_dependants''
                 (of_int (py_int (get_or (Number_of_Dependants input_dict) 0))) df;
          df = set_at ''income_lakhs'' (get_or (Income_in_Lakhs input_dict) 0) df;
          df = set_at ''genetical_risk'' (get_or (Genetical_Risk input_dict) 0) df
      in df)"

definition encode_insurance :: "input_record \<Rightarrow> frame \<Rightarrow> frame" where
  "encode_insurance input_dict df =
     set_at ''insurance_plan''
       (of_int (dict_get INSURANCE_ENCODING (get_or (Insurance_Plan input_dict) ''Bronze'') 1)) df"

definition encode_gender :: "input_record \<Rightarrow> frame \<Rightarrow> frame" where
  "encode_gender input_dict df =
     (if lower (get_or (Gender input_dict) []) = ''male''
      then set_at ''gender_Male'' 1 df else df)"

definition encode_region :: "input_record \<Rightarrow> frame \<Rightarrow> frame" where
  "encode_region input_dict df =
     (let region = strip (get_or (Region input_dict) []) in
      if region = ''Northwest'' then set_at ''region_Northwest'' 1 df
      else if region = ''Southeast'' then set_at ''region_Southeast'' 1 df
      else if region = ''Southwest'' then set_at ''region_Southwest'' 1 df
      else df)"

definition encode_marital :: "input_record \<Rightarrow> frame \<Rightarrow> frame" where
  "encode_marital input_dict df =
     (if strip (get_or (Marital_Status input_dict) []) = ''Unmarried''
      then set_at ''marital_status_Unmarried'' 1 df else df)"

definition encode_bmi :: "input_record \<Rightarrow> frame \<Rightarrow> frame" where
  "encode_bmi input_dict df =
     (let bmi = strip (get_or (BMI_Category input_dict) []) in
      if bmi = ''Obesity'' then set_at ''bmi_category_Obesity'' 1 df
      else if bmi = ''Overweight'' then set_at ''bmi_category_Overweight'' 1 df
      else if bmi = ''Underweight'' then set_at ''bmi_category_Underweight'' 1 df
      else df)"

definition encode_smoking :: "input_record \<Rightarrow> frame \<Rightarrow> frame" where
  "encode_smoking input_dict df =
     (let smoking = strip (get_or (Smoking_Status input_dict) []) in
      if smoking = ''Occasional'' then set_at ''smoking_status_Occasional'' 1 df
      else if smoking = ''Regular'' then set_at ''smoking_status_Regular'' 1 df
      else df)"

definition encode_employment :: "input_record \<Rightarrow> frame \<Rightarrow> frame" where
  "encode_employment input_dict df =
     (let employment = strip (get_or (Employment_Status input_dict) []) in
      if employment = ''Salaried'' then set_at ''employment_status_Salaried'' 1 df
      else if employment = ''Self-Employed''
      then set_at ''employment_status_Self-Employed'' 1 df
      else df)"

definition encode_risk :: "input_record \<Rightarrow> frame \<Rightarrow> frame" where
  "encode_risk input_dict df =
     set_at ''normalized_risk_score''
       (calculate_normalized_risk (get_or (Medical_History input_dict) [])) df"

definition encode_fields :: "input_record \<Rightarrow> frame" where
  \<comment> \<open>\<open>preprocess_input\<close> before any scaling\<close>
  "encode_fields input_dict =
     (let df = new_frame EXPECTED_COLUMNS;
          df = encode_numeric input_dict df;
          df = encode_insurance input_dict df;
          df = encode_gender input_dict df;
          df = encode_region input_dict df;
          df = encode_marital input_dict df;
          df = encode_bmi input_dict df;
          df = encode_smoking input_dict df;
          df = encode_employment input_dict df;
          df = encode_risk input_dict df
      in df)"

section \<open>Artifacts and the module state\<close>

type_synonym model = "frame \<Rightarrow> pyfloat"
  \<comment> \<open>\<open>float(m.predict(df)[0])\<close>\<close>

type_synonym transform = "real list \<Rightarrow> real list"
  \<comment> \<open>\<open>scaler.transform\<close> on the selected cells of the row\<close>

datatype scaler_obj =
    Bare transform
  | Dict "transform option" "string list option"
    \<comment> \<open>a dict: the values under "scaler" and "cols_to_scale" where the key is present\<close>

record scaler_bundle =
  scaler :: transform
  cols_to_scale :: "string list"

datatype 'a stored = Absent | Unreadable | Stored 'a
  \<comment> \<open>a file of the artifacts directory: not there, there but \<open>joblib.load\<close> raises, loadable\<close>

record artifacts_dir =
  model_young_joblib :: "model stored"
  model_rest_joblib :: "model stored"
  scaler_young_joblib :: "scaler_obj stored"
  scaler_rest_joblib :: "scaler_obj stored"

record module_state =
  model_young :: "model option"
  model_rest :: "model option"
  scaler_young :: "scaler_obj option"
  scaler_rest :: "scaler_obj option"

fun load_artifact :: "string \<Rightarrow> 'a stored \<Rightarrow> error + 'a" where
  "load_artifact name Absent = Inl (FileNotFoundError name)"
| "load_artifact name Unreadable = Inl (LoadError name)"
| "load_artifact name (Stored x) = Inr x"

definition load_module :: "artifacts_dir \<Rightarrow> module_state" where
  \<comment> \<open>the three \<open>try\<close> blocks that run when the module is imported\<close>
  "load_module d =
     (let (my, mr) =
            (case load_artifact ''model_young.joblib'' (model_young_joblib d) of
               Inl e \<Rightarrow> (None, None)
             | Inr y \<Rightarrow>
                 (case load_artifact ''model_rest.joblib'' (model_rest_joblib d) of
                    Inl e \<Rightarrow> (None, None)
                  | Inr r \<Rightarrow> (Some y, Some r)));
          sy = (case load_artifact ''scaler_young.joblib'' (scaler_young_joblib d) of
                  Inl e \<Rightarrow> None | Inr s \<Rightarrow> Some s);
          sr = (case load_artifact ''scaler_rest.joblib'' (scaler_rest_joblib d) of
                  Inl e \<Rightarrow> None | Inr s \<Rightarrow> Some s)
      in \<lparr>model_young = my, model_rest = mr, scaler_young = sy, scaler_rest = sr\<rparr>)"

fun ensure_scaler_format :: "scaler_obj option \<Rightarrow> error + scaler_bundle option" where
  "ensure_scaler_format None = Inr None"
| "ensure_scaler_format (Some (Dict (Some t) (Some cs))) =
     Inr (Some \<lparr>scaler = t, cols_to_scale = cs\<rparr>)"
| "ensure_scaler_format (Some (Dict _ _)) = Inl ScalerFormatError"
| "ensure_scaler_format (Some (Bare t)) =
     Inr (Some \<lparr>scaler = t, cols_to_scale = [''age'', ''income_lakhs'']\<rparr>)"

section \<open>\<open>preprocess_input\<close> and \<open>predict\<close>\<close>

definition preprocess_input :: "module_state \<Rightarrow> input_record \<Rightarrow> error + frame" where
  "preprocess_input g input_dict =
     (let df = encode_fields input_dict in
      case get_at df ''age'' of
        Inl e \<Rightarrow> Inl e
      | Inr a \<Rightarrow>
          let age = py_int a in
          (case (if age \<le> 25 then ensure_scaler_format (scaler_young g)
                 else ensure_scaler_format (scaler_rest g)) of
             Inl e \<Rightarrow> Inl e
           | Inr None \<Rightarrow> Inr df
           | Inr (Some scaler_obj) \<Rightarrow>
               let cols = cols_to_scale scaler_obj;
                   sc = scaler scaler_obj;
                   missing = filter (\<lambda>c. c \<notin> set (columns df)) cols
               in if missing \<noteq> [] then Inl (SchemaMismatch missing)
                  else (case select_columns df cols of
                          Inl e \<Rightarrow> Inl e
                        | Inr xs \<Rightarrow> assign_columns df cols (sc xs))))"

definition predict :: "module_state \<Rightarrow> input_record \<Rightarrow> module_state \<times> (error + int)" where
  \<comment> \<open>the module state after the call, and what the call returns or raises\<close>
  "predict g input_dict =
     (case (model_young g, model_rest g) of
        (Some my, Some mr) \<Rightarrow>
          (case preprocess_input g input_dict of
             Inl e \<Rightarrow> (g, Inl e)
           | Inr df \<Rightarrow>
               (case get_at df ''age'' of
                  Inl e \<Rightarrow> (g, Inl e)
                | Inr a \<Rightarrow>
                    let val = (if py_int a \<le> 25 then my df else mr df) in
                    (case py_round val of
                       Inl e \<Rightarrow> (g, Inl e)
                     | Inr r \<Rightarrow> (g, Inr (max 0 r)))))
      | _ \<Rightarrow> (g, Inl ModelsUnavailable))"

section \<open>Vocabulary of the statements\<close>

definition band_scaler :: "module_state \<Rightarrow> input_record \<Rightarrow> scaler_obj option" where
  \<comment> \<open>the scaler object that \<open>preprocess_input\<close> hands to \<open>_ensure_scaler_format\<close>\<close>
  "band_scaler g input_dict =
     (if py_int (get_or (Age input_dict) 0) \<le> 25 then scaler_young g else scaler_rest g)"

definition round_half_up :: "real \<Rightarrow> int" where
  \<comment> \<open>the nearest integer, a tie goes up\<close>
  "round_half_up x = \<lfloor>x + 1 / 2\<rfloor>"

definition round_half_even :: "real \<Rightarrow> int" where
  \<comment> \<open>as \<open>round_half_up\<close>, but a tie between an even and an odd integer goes to the even one\<close>
  "round_half_even x = (if frac x = 1 / 2 \<and> even \<lfloor>x\<rfloor> then \<lfloor>x\<rfloor> else round_half_up x)"

definition exact_flag :: "string option \<Rightarrow> string \<Rightarrow> real" where
  \<comment> \<open>a flag set by exact, case-sensitive comparison of the value given\<close>
  "exact_flag v name = (if v = Some name then 1 else 0)"

definition trimmed_flag :: "string option \<Rightarrow> string \<Rightarrow> real" where
  \<comment> \<open>a flag set by case-sensitive comparison after \<open>strip\<close>; a missing value is \<open>""\<close>\<close>
  "trimmed_flag v name = (if strip (get_or v []) = name then 1 else 0)"

definition male_flag :: "string option \<Rightarrow> real" where
  "male_flag v = (if lower (get_or v []) = ''male'' then 1 else 0)"

definition plan_code :: "string option \<Rightarrow> real" where
  "plan_code v =
     (if v = Some ''Bronze'' then 1
      else if v = Some ''Silver'' then 2
      else if v = Some ''Gold'' then 3
      else 1)"

definition ONE_HOT_COLUMNS :: "string list" where
  \<comment> \<open>the twelve flags: the expected columns after the six numeric ones\<close>
  "ONE_HOT_COLUMNS = drop 6 EXPECTED_COLUMNS"

subsection \<open>Records, models and scalers used as examples\<close>

definition empty_record :: input_record where
  "empty_record =
     \<lparr>Age = None, Number_of_Dependants = None, Income_in_Lakhs = None,
      Genetical_Risk = None, Insurance_Plan = None, Employment_Status = None,
      Gender = None, Marital_Status = None, BMI_Category = None, Smoking_Status = None,
      Region = None, Medical_History = None\<rparr>"

definition sample :: input_record where
  \<comment> \<open>the \<open>sample\<close> of the module's self test\<close>
  "sample =
     \<lparr>Age = Some 30, Number_of_Dependants = Some 0, Income_in_Lakhs = Some 12,
      Genetical_Risk = Some 1, Insurance_Plan = Some ''Silver'',
      Employment_Status = Some ''Salaried'', Gender = Some ''Male'',
      Marital_Status = Some ''Unmarried'', BMI_Category = Some ''Normal'',
      Smoking_Status = Some ''No Smoking'', Region = Some ''Northwest'',
      Medical_History = Some ''No Disease''\<rparr>"

definition baseline_record :: input_record where
  "baseline_record =
     empty_record\<lparr>Gender := Some ''Female'', Region := Some ''Northeast'',
       Marital_Status := Some ''Married'', BMI_Category := Some ''Normal'',
       Smoking_Status := Some ''No Smoking'', Employment_Status := Some ''Freelancer''\<rparr>"

definition const_model :: "real \<Rightarrow> model" where
  "const_model v = (\<lambda>df. Finite v)"

definition min_max :: transform where
  \<comment> \<open>a min-max scaler fitted on age 18..100 and income 0..100\<close>
  "min_max xs = (case xs of [a, i] \<Rightarrow> [(a - 18) / 82, i / 100] | _ \<Rightarrow> xs)"

definition unscaled_state :: module_state where
  "unscaled_state =
     \<lparr>model_young = Some (const_model 1000), model_rest = Some (const_model 2000),
      scaler_young = None, scaler_rest = None\<rparr>"

definition scaled_state :: module_state where
  "scaled_state = unscaled_state\<lparr>scaler_rest := Some (Bare min_max)\<rparr>"

definition models_only_dir :: artifacts_dir where
  "models_only_dir =
     \<lparr>model_young_joblib = Stored (const_model 1000),
      model_rest_joblib = Stored (const_model 2000),
      scaler_young_joblib = Absent, scaler_rest_joblib = Absent\<rparr>"

section \<open>Splitting a medical history\<close>

lemma take3_amp_iff: "take 3 s = '' & '' \<longleftrightarrow> (\<exists>r. s = CHR '' '' # CHR ''&'' # CHR '' '' # r)"
proof
  assume h: "take 3 s = '' & ''"
  have "s = take 3 s @ drop 3 s" by simp
  with h have "s = '' & '' @ drop 3 s" by simp
  then have "s = CHR '' '' # CHR ''&'' # CHR '' '' # drop 3 s" by simp
  then show "\<exists>r. s = CHR '' '' # CHR ''&'' # CHR '' '' # r" by (rule exI)
next
  assume "\<exists>r. s = CHR '' '' # CHR ''&'' # CHR '' '' # r"
  then obtain r where "s = CHR '' '' # CHR ''&'' # CHR '' '' # r" by blast
  then show "take 3 s = '' & ''" by (simp add: numeral_3_eq_3)
qed

lemma take3_amp_comma_iff: "take 3 s = '' &,'' \<longleftrightarrow> (\<exists>r. s = CHR '' '' # CHR ''&'' # CHR '','' # r)"
proof
  assume h: "take 3 s = '' &,''"
  have "s = take 3 s @ drop 3 s" by simp
  with h have "s = '' &,'' @ drop 3 s" by simp
  then have "s = CHR '' '' # CHR ''&'' # CHR '','' # drop 3 s" by simp
  then show "\<exists>r. s = CHR '' '' # CHR ''&'' # CHR '','' # r" by (rule exI)
next
  assume "\<exists>r. s = CHR '' '' # CHR ''&'' # CHR '','' # r"
  then obtain r where "s = CHR '' '' # CHR ''&'' # CHR '','' # r" by blast
  then show "take 3 s = '' &,''" by (simp add: numeral_3_eq_3)
qed

lemma no_amp_take3: "CHR ''&'' \<notin> set s \<Longrightarrow> take 3 s \<noteq> '' & ''"
  by (auto simp: take3_amp_iff)

lemma split_amp_plain: "CHR ''&'' \<notin> set s \<Longrightarrow> split_amp cur s = [rev cur @ s]"
proof (induction s arbitrary: cur)
  case Nil then show ?case by simp
next
  case (Cons c cs)
  from Cons.prems have n: "take 3 (c # cs) \<noteq> '' & ''" by (rule no_amp_take3)
  from Cons.prems have "CHR ''&'' \<notin> set cs" by simp
  then have "split_amp (c # cur) cs = [rev (c # cur) @ cs]" by (rule Cons.IH)
  moreover have "split_amp cur (c # cs) = split_amp (c # cur) cs"
    using n by (simp only: split_amp.simps simp_thms if_False)
  ultimately show ?case by simp
qed

lemma spec_split_plain:
  "CHR ''&'' \<notin> set s \<Longrightarrow> CHR '','' \<notin> set s \<Longrightarrow> spec_split cur s = [rev cur @ s]"
proof (induction s arbitrary: cur)
  case Nil then show ?case by simp
next
  case (Cons c cs)
  from Cons.prems(1) have n: "take 3 (c # cs) \<noteq> '' & ''" by (rule no_amp_take3)
  from Cons.prems have c: "c \<noteq> CHR '',''" by auto
  from Cons.prems have "CHR ''&'' \<notin> set cs" "CHR '','' \<notin> set cs" by simp_all
  then have "spec_split (c # cur) cs = [rev (c # cur) @ cs]" by (rule Cons.IH)
  moreover have "spec_split cur (c # cs) = spec_split (c # cur) cs"
    using n c by (simp only: spec_split.simps simp_thms if_False)
  ultimately show ?case by simp
qed

lemma replace_comma_Nil: "replace_comma [] = []"
  by (simp add: replace_comma_def)

lemma replace_comma_Cons:
  "replace_comma (c # cs) = (if c = CHR '','' then '' & '' else [c]) @ replace_comma cs"
  by (simp add: replace_comma_def)

lemma replace_comma_plain: "CHR '','' \<notin> set s \<Longrightarrow> replace_comma s = s"
  by (induction s) (auto simp: replace_comma_Nil replace_comma_Cons)

lemma amp_comma_free_drop: "amp_comma_free s \<Longrightarrow> amp_comma_free (drop n s)"
proof (induction s arbitrary: n)
  case Nil then show ?case by simp
next
  case (Cons c cs)
  show ?case
  proof (cases n)
    case 0 with Cons.prems show ?thesis by simp
  next
    case (Suc m)
    from Cons.prems have "amp_comma_free cs" by (simp only: amp_comma_free.simps)
    then have "amp_comma_free (drop m cs)" by (rule Cons.IH)
    with Suc show ?thesis by simp
  qed
qed

lemma dropWhile_all_iff: "(\<forall>x\<in>set (dropWhile P s). P x) \<longleftrightarrow> (\<forall>x\<in>set s. P x)"
proof (cases "dropWhile P s = []")
  case True
  then have "\<forall>x\<in>set s. P x" by (simp add: dropWhile_eq_Nil_conv)
  then show ?thesis by (blast dest: set_dropWhileD)
next
  case False
  then have "\<not> P (hd (dropWhile P s))" by (rule hd_dropWhile)
  moreover from False have "hd (dropWhile P s) \<in> set (dropWhile P s)" by simp
  ultimately show ?thesis by (blast dest: set_dropWhileD)
qed

lemma strip_empty_iff: "strip s = [] \<longleftrightarrow> (\<forall>c\<in>set s. is_space c)"
  by (simp add: strip_def dropWhile_eq_Nil_conv dropWhile_all_iff)

lemma straddle:
  assumes "take 3 (c # replace_comma cs) = '' & ''" and "c \<noteq> CHR '',''"
  shows "take 3 (c # cs) = '' & '' \<or> take 3 (c # cs) = '' &,''"
proof -
  from assms(1) obtain r where r: "c # replace_comma cs = CHR '' '' # CHR ''&'' # CHR '' '' # r"
    unfolding take3_amp_iff by blast
  then have c: "c = CHR '' ''" and rc: "replace_comma cs = CHR ''&'' # CHR '' '' # r" by simp_all
  from rc obtain d ds where cs: "cs = d # ds" by (cases cs) (simp_all add: replace_comma_Nil)
  from rc cs have d: "d = CHR ''&''" and rd: "replace_comma ds = CHR '' '' # r"
    by (simp_all add: replace_comma_Cons split: if_splits)
  from rd obtain e es where ds: "ds = e # es" by (cases ds) (simp_all add: replace_comma_Nil)
  from rd ds have "e = CHR '','' \<or> e = CHR '' ''"
    by (simp add: replace_comma_Cons split: if_splits)
  then show ?thesis
  proof
    assume "e = CHR '',''"
    with c d cs ds have "take 3 (c # cs) = '' &,''" unfolding take3_amp_comma_iff by blast
    then show ?thesis ..
  next
    assume "e = CHR '' ''"
    with c d cs ds have "take 3 (c # cs) = '' & ''" unfolding take3_amp_iff by blast
    then show ?thesis ..
  qed
qed

lemma split_replace: "amp_comma_free s \<Longrightarrow> split_amp cur (replace_comma s) = spec_split cur s"
proof (induction cur s rule: spec_split.induct)
  case (1 cur)
  then show ?case by (simp add: replace_comma_Nil)
next
  case (2 cur c cs)
  from "2.prems" have both: "take 3 (c # cs) \<noteq> '' &,'' \<and> amp_comma_free cs"
    by (simp only: amp_comma_free.simps simp_thms)
  from both have free: "amp_comma_free cs" by (rule conjunct2)
  from both have head: "take 3 (c # cs) \<noteq> '' &,''" by (rule conjunct1)
  show ?case
  proof (cases "take 3 (c # cs) = '' & ''")
    case True
    then obtain r where r: "c # cs = CHR '' '' # CHR ''&'' # CHR '' '' # r"
      unfolding take3_amp_iff by blast
    then have cs: "cs = CHR ''&'' # CHR '' '' # r" and c: "c = CHR '' ''" by simp_all
    have rep: "replace_comma (c # cs) = CHR '' '' # CHR ''&'' # CHR '' '' # replace_comma r"
      unfolding c cs by (simp add: replace_comma_Cons)
    have "amp_comma_free (drop 2 cs)" using free by (rule amp_comma_free_drop)
    with True have "split_amp [] (replace_comma (drop 2 cs)) = spec_split [] (drop 2 cs)"
      by (rule "2.IH"(1))
    moreover have "drop 2 cs = r" unfolding cs by simp
    moreover have "split_amp cur (replace_comma (c # cs)) = rev cur # split_amp [] (replace_comma r)"
      unfolding rep by (simp add: numeral_3_eq_3)
    moreover have "spec_split cur (c # cs) = rev cur # spec_split [] (drop 2 cs)"
      using True by (simp only: spec_split.simps simp_thms if_True)
    ultimately show ?thesis by simp
  next
    case False
    show ?thesis
    proof (cases "c = CHR '',''")
      case True
      have "split_amp [] (replace_comma cs) = spec_split [] cs"
        using False True free by (rule "2.IH"(2))
      moreover have "split_amp cur (replace_comma (c # cs)) = rev cur # split_amp [] (replace_comma cs)"
        unfolding True by (simp add: replace_comma_Cons numeral_3_eq_3)
      moreover have "spec_split cur (c # cs) = rev cur # spec_split [] cs"
        using False True by (simp only: spec_split.simps simp_thms if_True if_False)
      ultimately show ?thesis by simp
    next
      case c: False
      have "split_amp (c # cur) (replace_comma cs) = spec_split (c # cur) cs"
        using False c free by (rule "2.IH"(3))
      moreover have "take 3 (c # replace_comma cs) \<noteq> '' & ''"
        using straddle[of c cs] c False head by blast
      then have "split_amp cur (c # replace_comma cs) = split_amp (c # cur) (replace_comma cs)"
        by (simp only: split_amp.simps simp_thms if_False)
      moreover have "replace_comma (c # cs) = c # replace_comma cs"
        using c by (simp add: replace_comma_Cons)
      moreover have "spec_split cur (c # cs) = spec_split (c # cur) cs"
        using False c by (simp only: spec_split.simps simp_thms if_False)
      ultimately show ?thesis by simp
    qed
  qed
qed


lemma risk_table_eq: "dict_get RISK_SCORES p 0 = spec_token_score p"
  by (simp add: dict_get_def RISK_SCORES_def spec_token_score_def)

lemma not_space_sep: "\<not> is_space CHR ''&''" "\<not> is_space CHR '',''"
  by (simp_all add: is_space_def)

lemma blank_score:
  assumes "strip s = []"
  shows "spec_normalized_risk s = 0"
proof -
  from assms have sp: "\<forall>c\<in>set s. is_space c" by (simp only: strip_empty_iff)
  with not_space_sep have "CHR ''&'' \<notin> set s" "CHR '','' \<notin> set s" by blast+
  then have "spec_split [] s = [s]" using spec_split_plain[of s "[]"] by simp
  with assms show ?thesis
    by (simp add: spec_normalized_risk_def spec_token_score_def lower_def)
qed

lemma risk_general:
  assumes "amp_comma_free s"
  shows "calculate_normalized_risk s = spec_normalized_risk s"
proof (cases "strip s = []")
  case True
  then show ?thesis by (simp add: calculate_normalized_risk_def blank_score)
next
  case False
  have "split_amp [] (replace_comma s) = spec_split [] s"
    using assms by (rule split_replace)
  with False show ?thesis
    by (simp add: calculate_normalized_risk_def spec_normalized_risk_def risk_table_eq
        min.commute max.commute comp_def)
qed

lemma risk_unfolded:
  "calculate_normalized_risk s =
     min 1 (max 0 (of_int (sum_list (map (\<lambda>t. spec_token_score (lower (strip t)))
                                       (split_amp [] (replace_comma s)))) / 14))"
proof (cases "strip s = []")
  case True
  then have sp: "\<forall>c\<in>set s. is_space c" by (simp only: strip_empty_iff)
  with not_space_sep have na: "CHR ''&'' \<notin> set s" and nc: "CHR '','' \<notin> set s" by blast+
  from nc have "replace_comma s = s" by (rule replace_comma_plain)
  moreover from na have "split_amp [] s = [s]" using split_amp_plain[of s "[]"] by simp
  ultimately show ?thesis using True
    by (simp add: calculate_normalized_risk_def spec_token_score_def lower_def)
next
  case False
  then show ?thesis
    by (simp add: calculate_normalized_risk_def risk_table_eq min.commute max.commute comp_def)
qed

lemma risk_examples:
  "calculate_normalized_risk ''Heart disease'' = 8 / 14"
  "calculate_normalized_risk ''Diabetes & High blood pressure'' = 12 / 14"
  "calculate_normalized_risk ''No Disease'' = 0"
  "calculate_normalized_risk ''Foo'' = 0"
  by code_simp+

text \<open>
  C2 (as amended). For every medical-history string the score is: replace each \<open>","\<close> by
  \<open>" & "\<close>, split on \<open>" & "\<close>, trim and lowercase each token, score it by the table
  (unknown tokens 0), sum, divide by 14 and clip to \<open>[0, 1]\<close>. For every string in which
  no \<open>" &"\<close> is directly followed by \<open>","\<close> this is the split on \<open>" & "\<close> or \<open>","\<close> of
  the specification. \<open>"Heart disease"\<close> gives \<open>8/14\<close>, \<open>"Diabetes & High blood pressure"\<close>
  gives \<open>12/14\<close>, \<open>"No Disease"\<close> and \<open>"Foo"\<close> give 0.
\<close>

theorem risk_score_replace_then_split:
  "calculate_normalized_risk s =
     min 1 (max 0 (of_int (sum_list (map (\<lambda>t. spec_token_score (lower (strip t)))
                                       (split_amp [] (replace_comma s)))) / 14))
   \<and> (amp_comma_free s \<longrightarrow> calculate_normalized_risk s = spec_normalized_risk s)
   \<and> 0 \<le> calculate_normalized_risk s \<and> calculate_normalized_risk s \<le> 1
   \<and> calculate_normalized_risk ''Heart disease'' = 8 / 14
   \<and> calculate_normalized_risk ''Diabetes & High blood pressure'' = 12 / 14
   \<and> calculate_normalized_risk ''No Disease'' = 0
   \<and> calculate_normalized_risk ''Foo'' = 0"
proof -
  have bounds: "0 \<le> calculate_normalized_risk s \<and> calculate_normalized_risk s \<le> 1"
    by (simp only: risk_unfolded) simp
  show ?thesis
    using risk_unfolded[of s] risk_general[of s] bounds risk_examples by blast
qed

theorem risk_score_replace_then_split_witness:
  "amp_comma_free ''Diabetes & Thyroid, None''
   \<and> calculate_normalized_risk ''Diabetes & Thyroid, None''
       = spec_normalized_risk ''Diabetes & Thyroid, None''"
proof -
  have h: "amp_comma_free ''Diabetes & Thyroid, None''" by code_simp
  with risk_score_replace_then_split[of "''Diabetes & Thyroid, None''"] show ?thesis by blast
qed

text \<open>
  C2 as stated fails: in \<open>"Diabetes &,Thyroid"\<close> the replacement of the comma makes
  \<open>"Diabetes & & Thyroid"\<close>, whose pieces are \<open>"Diabetes"\<close> and \<open>"& Thyroid"\<close> (score 6),
  while splitting on \<open>" & "\<close> or \<open>","\<close> gives \<open>"Diabetes &"\<close> and \<open>"Thyroid"\<close> (score 5).
\<close>

theorem risk_score_split_counterexample:
  "calculate_normalized_risk ''Diabetes &,Thyroid'' = 6 / 14
   \<and> spec_normalized_risk ''Diabetes &,Thyroid'' = 5 / 14
   \<and> calculate_normalized_risk ''Diabetes &,Thyroid'' \<noteq> spec_normalized_risk ''Diabetes &,Thyroid''"
  by code_simp

section \<open>The frame and the encoder\<close>

lemma get_at_set_at: "get_at (set_at c v df) c' = (if c' = c then Inr v else get_at df c')"
  by (simp add: get_at_def set_at_def update_conv')

lemma columns_set_at: "c \<in> set (columns df) \<Longrightarrow> columns (set_at c v df) = columns df"
  by (simp add: columns_def set_at_def update_keys)

lemma columns_new_frame: "columns (new_frame cs) = cs"
  by (simp add: columns_def new_frame_def comp_def)

lemma get_at_new_frame: "get_at (new_frame cs) c = (if c \<in> set cs then Inr 0 else Inl (KeyError c))"
  by (induction cs) (auto simp: get_at_def new_frame_def)

lemma in_expected:
  "''age'' \<in> set EXPECTED_COLUMNS" "''number_of_dependants'' \<in> set EXPECTED_COLUMNS"
  "''income_lakhs'' \<in> set EXPECTED_COLUMNS" "''insurance_plan'' \<in> set EXPECTED_COLUMNS"
  "''genetical_risk'' \<in> set EXPECTED_COLUMNS" "''normalized_risk_score'' \<in> set EXPECTED_COLUMNS"
  "''gender_Male'' \<in> set EXPECTED_COLUMNS" "''region_Northwest'' \<in> set EXPECTED_COLUMNS"
  "''region_Southeast'' \<in> set EXPECTED_COLUMNS" "''region_Southwest'' \<in> set EXPECTED_COLUMNS"
  "''marital_status_Unmarried'' \<in> set EXPECTED_COLUMNS"
  "''bmi_category_Obesity'' \<in> set EXPECTED_COLUMNS"
  "''bmi_category_Overweight'' \<in> set EXPECTED_COLUMNS"
  "''bmi_category_Underweight'' \<in> set EXPECTED_COLUMNS"
  "''smoking_status_Occasional'' \<in> set EXPECTED_COLUMNS"
  "''smoking_status_Regular'' \<in> set EXPECTED_COLUMNS"
  "''employment_status_Salaried'' \<in> set EXPECTED_COLUMNS"
  "''employment_status_Self-Employed'' \<in> set EXPECTED_COLUMNS"
  by (simp_all add: EXPECTED_COLUMNS_def)

lemma columns_set_at_expected:
  "columns df = EXPECTED_COLUMNS \<Longrightarrow> c \<in> set EXPECTED_COLUMNS \<Longrightarrow>
   columns (set_at c v df) = EXPECTED_COLUMNS"
  by (simp add: columns_set_at)

lemma columns_blocks:
  assumes "columns df = EXPECTED_COLUMNS"
  shows "columns (encode_numeric r df) = EXPECTED_COLUMNS"
    and "columns (encode_insurance r df) = EXPECTED_COLUMNS"
    and "columns (encode_gender r df) = EXPECTED_COLUMNS"
    and "columns (encode_region r df) = EXPECTED_COLUMNS"
    and "columns (encode_marital r df) = EXPECTED_COLUMNS"
    and "columns (encode_bmi r df) = EXPECTED_COLUMNS"
    and "columns (encode_smoking r df) = EXPECTED_COLUMNS"
    and "columns (encode_employment r df) = EXPECTED_COLUMNS"
    and "columns (encode_risk r df) = EXPECTED_COLUMNS"
  using assms
  by (simp_all add: encode_numeric_def encode_insurance_def encode_gender_def
      encode_region_def encode_marital_def encode_bmi_def encode_smoking_def
      encode_employment_def encode_risk_def Let_def columns_set_at_expected in_expected)

lemma columns_encode_fields: "columns (encode_fields r) = EXPECTED_COLUMNS"
  by (simp add: encode_fields_def Let_def columns_blocks columns_new_frame)

lemma get_at_numeric:
  "get_at (encode_numeric r df) c =
     (if c = ''genetical_risk'' then Inr (get_or (Genetical_Risk r) 0)
      else if c = ''income_lakhs'' then Inr (get_or (Income_in_Lakhs r) 0)
      else if c = ''number_of_dependants''
        then Inr (of_int (py_int (get_or (Number_of_Dependants r) 0)))
      else if c = ''age'' then Inr (of_int (py_int (get_or (Age r) 0)))
      else get_at df c)"
  by (simp add: encode_numeric_def Let_def get_at_set_at)

lemma get_at_insurance:
  "get_at (encode_insurance r df) c =
     (if c = ''insurance_plan''
      then Inr (of_int (dict_get INSURANCE_ENCODING (get_or (Insurance_Plan r) ''Bronze'') 1))
      else get_at df c)"
  by (simp add: encode_insurance_def get_at_set_at)

lemma get_at_gender:
  "get_at (encode_gender r df) c =
     (if c = ''gender_Male'' \<and> lower (get_or (Gender r) []) = ''male'' then Inr 1
      else get_at df c)"
  by (simp add: encode_gender_def get_at_set_at)

lemma get_at_region:
  "get_at (encode_region r df) c =
     (if c = ''region_Northwest'' \<and> strip (get_or (Region r) []) = ''Northwest'' then Inr 1
      else if c = ''region_Southeast'' \<and> strip (get_or (Region r) []) = ''Southeast'' then Inr 1
      else if c = ''region_Southwest'' \<and> strip (get_or (Region r) []) = ''Southwest'' then Inr 1
      else get_at df c)"
  by (simp add: encode_region_def Let_def get_at_set_at)

lemma get_at_marital:
  "get_at (encode_marital r df) c =
     (if c = ''marital_status_Unmarried'' \<and> strip (get_or (Marital_Status r) []) = ''Unmarried''
      then Inr 1 else get_at df c)"
  by (simp add: encode_marital_def get_at_set_at)

lemma get_at_bmi:
  "get_at (encode_bmi r df) c =
     (if c = ''bmi_category_Obesity'' \<and> strip (get_or (BMI_Category r) []) = ''Obesity''
        then Inr 1
      else if c = ''bmi_category_Overweight'' \<and> strip (get_or (BMI_Category r) []) = ''Overweight''
        then Inr 1
      else if c = ''bmi_category_Underweight'' \<and> strip (get_or (BMI_Category r) []) = ''Underweight''
        then Inr 1
      else get_at df c)"
  by (simp add: encode_bmi_def Let_def get_at_set_at)

lemma get_at_smoking:
  "get_at (encode_smoking r df) c =
     (if c = ''smoking_status_Occasional'' \<and> strip (get_or (Smoking_Status r) []) = ''Occasional''
        then Inr 1
      else if c = ''smoking_status_Regular'' \<and> strip (get_or (Smoking_Status r) []) = ''Regular''
        then Inr 1
      else get_at df c)"
  by (simp add: encode_smoking_def Let_def get_at_set_at)

lemma get_at_employment:
  "get_at (encode_employment r df) c =
     (if c = ''employment_status_Salaried'' \<and> strip (get_or (Employment_Status r) []) = ''Salaried''
        then Inr 1
      else if c = ''employment_status_Self-Employed''
              \<and> strip (get_or (Employment_Status r) []) = ''Self-Employed''
        then Inr 1
      else get_at df c)"
  by (simp add: encode_employment_def Let_def get_at_set_at)

lemma get_at_risk:
  "get_at (encode_risk r df) c =
     (if c = ''normalized_risk_score''
      then Inr (calculate_normalized_risk (get_or (Medical_History r) []))
      else get_at df c)"
  by (simp add: encode_risk_def get_at_set_at)

lemmas get_at_blocks = get_at_numeric get_at_insurance get_at_gender get_at_region
  get_at_marital get_at_bmi get_at_smoking get_at_employment get_at_risk

lemma py_int_of_int: "py_int (of_int n) = n"
  by (simp add: py_int_def)

lemma age_encoded: "get_at (encode_fields r) ''age'' = Inr (of_int (py_int (get_or (Age r) 0)))"
  by (simp add: encode_fields_def Let_def get_at_blocks)

lemma plan_encoded:
  "get_at (encode_fields r) ''insurance_plan'' = Inr (plan_code (Insurance_Plan r))"
  by (simp add: encode_fields_def Let_def get_at_blocks plan_code_def dict_get_def
      INSURANCE_ENCODING_def get_or_def split: option.splits)

lemma gender_encoded: "get_at (encode_fields r) ''gender_Male'' = Inr (male_flag (Gender r))"
  by (simp add: encode_fields_def Let_def get_at_blocks male_flag_def get_at_new_frame in_expected)

lemma region_encoded:
  "get_at (encode_fields r) ''region_Northwest'' = Inr (trimmed_flag (Region r) ''Northwest'')"
  "get_at (encode_fields r) ''region_Southeast'' = Inr (trimmed_flag (Region r) ''Southeast'')"
  "get_at (encode_fields r) ''region_Southwest'' = Inr (trimmed_flag (Region r) ''Southwest'')"
  by (simp_all add: encode_fields_def Let_def get_at_blocks trimmed_flag_def get_at_new_frame in_expected)

lemma flags_encoded:
  "get_at (encode_fields r) ''marital_status_Unmarried''
     = Inr (trimmed_flag (Marital_Status r) ''Unmarried'')"
  "get_at (encode_fields r) ''bmi_category_Obesity''
     = Inr (trimmed_flag (BMI_Category r) ''Obesity'')"
  "get_at (encode_fields r) ''bmi_category_Overweight''
     = Inr (trimmed_flag (BMI_Category r) ''Overweight'')"
  "get_at (encode_fields r) ''bmi_category_Underweight''
     = Inr (trimmed_flag (BMI_Category r) ''Underweight'')"
  "get_at (encode_fields r) ''smoking_status_Occasional''
     = Inr (trimmed_flag (Smoking_Status r) ''Occasional'')"
  "get_at (encode_fields r) ''smoking_status_Regular''
     = Inr (trimmed_flag (Smoking_Status r) ''Regular'')"
  "get_at (encode_fields r) ''employment_status_Salaried''
     = Inr (trimmed_flag (Employment_Status r) ''Salaried'')"
  "get_at (encode_fields r) ''employment_status_Self-Employed''
     = Inr (trimmed_flag (Employment_Status r) ''Self-Employed'')"
  by (simp_all add: encode_fields_def Let_def get_at_blocks trimmed_flag_def get_at_new_frame in_expected)

lemma fold_set_at_other:
  "c \<notin> set cols \<Longrightarrow> get_at (fold (\<lambda>(k, v). set_at k v) (zip cols vals) df) c = get_at df c"
proof (induction cols arbitrary: vals df)
  case Nil then show ?case by simp
next
  case (Cons k ks)
  then show ?case by (cases vals) (simp_all add: get_at_set_at)
qed

section \<open>Errors of the parts\<close>

lemma get_at_error: "get_at df c = Inl e \<Longrightarrow> e = KeyError c"
  by (simp add: get_at_def split: option.splits)

lemma select_columns_error: "select_columns df cs = Inl e \<Longrightarrow> \<exists>c. e = KeyError c"
  by (induction cs) (auto split: sum.splits dest: get_at_error)

lemma assign_columns_error: "assign_columns df cs vs = Inl e \<Longrightarrow> e = ShapeMismatch"
  by (simp add: assign_columns_def split: if_splits)

lemma ensure_scaler_format_error: "ensure_scaler_format x = Inl e \<Longrightarrow> e = ScalerFormatError"
  by (cases x rule: ensure_scaler_format.cases) simp_all

lemma ensure_scaler_format_error_iff:
  "ensure_scaler_format x = Inl ScalerFormatError
     \<longleftrightarrow> (\<exists>s c. x = Some (Dict s c) \<and> (s = None \<or> c = None))"
  by (cases x rule: ensure_scaler_format.cases) auto

lemma py_round_error: "py_round v = Inl e \<Longrightarrow> e = RoundNaN \<or> e = RoundInf"
  by (cases v) simp_all

section \<open>\<open>preprocess_input\<close> by the scaler of the age band\<close>

lemma preprocess_input_band:
  "preprocess_input g r =
     (case ensure_scaler_format (band_scaler g r) of
        Inl e \<Rightarrow> Inl e
      | Inr None \<Rightarrow> Inr (encode_fields r)
      | Inr (Some b) \<Rightarrow>
          if filter (\<lambda>c. c \<notin> set EXPECTED_COLUMNS) (cols_to_scale b) \<noteq> []
          then Inl (SchemaMismatch (filter (\<lambda>c. c \<notin> set EXPECTED_COLUMNS) (cols_to_scale b)))
          else (case select_columns (encode_fields r) (cols_to_scale b) of
                  Inl e \<Rightarrow> Inl e
                | Inr xs \<Rightarrow> assign_columns (encode_fields r) (cols_to_scale b) (scaler b xs)))"
  by (simp add: preprocess_input_def Let_def age_encoded py_int_of_int band_scaler_def
      columns_encode_fields split: sum.splits option.splits)

lemma preprocess_input_error:
  "preprocess_input g r = Inl e \<Longrightarrow>
     e = ScalerFormatError \<or> (\<exists>m. m \<noteq> [] \<and> e = SchemaMismatch m) \<or> (\<exists>c. e = KeyError c)
     \<or> e = ShapeMismatch"
  by (auto simp: preprocess_input_band split: sum.splits option.splits if_splits
      dest: ensure_scaler_format_error select_columns_error assign_columns_error)

lemma preprocess_input_not_unavailable: "preprocess_input g r \<noteq> Inl ModelsUnavailable"
  using preprocess_input_error[of g r ModelsUnavailable] by auto

lemma assign_columns_other:
  "assign_columns df cols vals = Inr df' \<Longrightarrow> c \<notin> set cols \<Longrightarrow> get_at df' c = get_at df c"
  by (auto simp: assign_columns_def fold_set_at_other split: if_splits)

lemma preprocess_input_keeps_unscaled:
  assumes "preprocess_input g r = Inr df"
    and "\<And>b. ensure_scaler_format (band_scaler g r) = Inr (Some b) \<Longrightarrow> c \<notin> set (cols_to_scale b)"
  shows "get_at df c = get_at (encode_fields r) c"
  using assms
  by (auto simp: preprocess_input_band split: sum.splits option.splits if_splits
      dest: assign_columns_other)

lemma preprocess_input_keeps_flags:
  assumes "preprocess_input g r = Inr df"
    and "\<And>b. ensure_scaler_format (band_scaler g r) = Inr (Some b)
           \<Longrightarrow> set (cols_to_scale b) \<inter> set cs = {}"
  shows "map (get_at df) cs = map (get_at (encode_fields r)) cs"
proof -
  have "get_at df c = get_at (encode_fields r) c" if "c \<in> set cs" for c
    using assms(1)
  proof (rule preprocess_input_keeps_unscaled)
    fix b assume "ensure_scaler_format (band_scaler g r) = Inr (Some b)"
    then have "set (cols_to_scale b) \<inter> set cs = {}" by (rule assms(2))
    with that show "c \<notin> set (cols_to_scale b)" by blast
  qed
  then show ?thesis by simp
qed

lemma scaled_sample_band:
  "ensure_scaler_format (band_scaler scaled_state sample) = Inr (Some b)
     \<longleftrightarrow> b = \<lparr>scaler = min_max, cols_to_scale = [''age'', ''income_lakhs'']\<rparr>"
  by (auto simp: band_scaler_def sample_def scaled_state_def unscaled_state_def get_or_def py_int_def)

lemma scaled_sample_frame:
  "preprocess_input scaled_state sample =
     Inr [(''age'', 6 / 41), (''number_of_dependants'', 0), (''income_lakhs'', 3 / 25),
          (''insurance_plan'', 2), (''genetical_risk'', 1), (''normalized_risk_score'', 0),
          (''gender_Male'', 1), (''region_Northwest'', 1), (''region_Southeast'', 0),
          (''region_Southwest'', 0), (''marital_status_Unmarried'', 1),
          (''bmi_category_Obesity'', 0), (''bmi_category_Overweight'', 0),
          (''bmi_category_Underweight'', 0), (''smoking_status_Occasional'', 0),
          (''smoking_status_Regular'', 0), (''employment_status_Salaried'', 1),
          (''employment_status_Self-Employed'', 0)]"
  by code_simp

section \<open>Rounding and dispatch in \<open>predict\<close>\<close>

lemma py_round_real_half_even: "py_round_real x = round_half_even x"
proof -
  define f where "f = \<lfloor>x\<rfloor>"
  define d where "d = x - of_int f"
  have d0: "0 \<le> d" and d1: "d < 1" unfolding d_def f_def by linarith+
  have fr: "frac x = d" unfolding d_def f_def frac_def ..
  have up: "round_half_up x = (if d < 1 / 2 then f else f + 1)"
  proof (cases "d < 1 / 2")
    case True
    have "\<lfloor>x + 1 / 2\<rfloor> = f"
      by (rule floor_unique) (use True d0 in \<open>simp_all add: d_def\<close>)
    with True show ?thesis by (simp add: round_half_up_def)
  next
    case False
    have "\<lfloor>x + 1 / 2\<rfloor> = f + 1"
      by (rule floor_unique) (use False d1 in \<open>simp_all add: d_def\<close>)
    with False show ?thesis by (simp add: round_half_up_def)
  qed
  show ?thesis
    unfolding py_round_real_def round_half_even_def Let_def fr up
    unfolding f_def[symmetric] d_def[symmetric]
    by auto
qed

lemma predict_loaded:
  assumes "model_young g = Some my" and "model_rest g = Some mr"
  shows "snd (predict g r) \<noteq> Inl ModelsUnavailable"
  using assms preprocess_input_not_unavailable[of g r]
  by (auto simp: predict_def Let_def split: sum.splits dest: get_at_error py_round_error)

lemma routing_without_scaler:
  assumes "band_scaler g r = None" and "model_young g = Some my" and "model_rest g = Some mr"
  shows "snd (predict g r) =
     (case py_round ((if py_int (get_or (Age r) 0) \<le> 25 then my else mr) (encode_fields r)) of
        Inl e \<Rightarrow> Inl e | Inr n \<Rightarrow> Inr (max 0 n))"
  using assms
  by (simp add: predict_def preprocess_input_band age_encoded py_int_of_int Let_def
      split: sum.splits)

section \<open>Claims on the encoder and the predictor\<close>

text \<open>
  C1. Whenever \<open>predict\<close> returns a value (both models are loaded and neither the
  preprocessing nor the rounding raises), that value is a non-negative integer.
\<close>

theorem predict_nonneg: "snd (predict g r) = Inr n \<Longrightarrow> 0 \<le> n"
  by (auto simp: predict_def Let_def split: option.splits sum.splits)

theorem predict_nonneg_witness:
  "snd (predict unscaled_state sample) = Inr 2000 \<and> (0::int) \<le> 2000"
proof -
  have h: "snd (predict unscaled_state sample) = Inr 2000" by code_simp
  from predict_nonneg[OF h] h show ?thesis by simp
qed

text \<open>
  C3 (as amended). For every finite value \<open>v\<close> that the selected model returns, \<open>predict\<close>
  returns \<open>max 0\<close> of \<open>v\<close> rounded to the nearest integer with a tie going to the even
  integer, as Python's \<open>round\<close> does; away from a tie this is rounding half up.
\<close>

theorem predict_rounds_half_even:
  assumes "model_young g = Some my" and "model_rest g = Some mr"
    and "preprocess_input g r = Inr df" and "get_at df ''age'' = Inr a"
    and "(if py_int a \<le> 25 then my df else mr df) = Finite v"
  shows "snd (predict g r) = Inr (max 0 (round_half_even v))
         \<and> (frac v \<noteq> 1 / 2 \<longrightarrow> snd (predict g r) = Inr (max 0 (round_half_up v)))"
proof -
  have "snd (predict g r) = Inr (max 0 (py_round_real v))"
    using assms by (simp add: predict_def Let_def)
  then show ?thesis by (simp add: py_round_real_half_even round_half_even_def)
qed

theorem predict_rounds_half_even_witness:
  "snd (predict (unscaled_state\<lparr>model_rest := Some (const_model (7 / 2))\<rparr>) sample) = Inr 4"
proof -
  let ?g = "unscaled_state\<lparr>model_rest := Some (const_model (7 / 2))\<rparr>"
  have 1: "model_young ?g = Some (const_model 1000)" by (simp add: unscaled_state_def)
  have 2: "model_rest ?g = Some (const_model (7 / 2))" by simp
  have 3: "preprocess_input ?g sample = Inr (encode_fields sample)" by code_simp
  have 4: "get_at (encode_fields sample) ''age'' = Inr 30" by code_simp
  have 5: "(if py_int 30 \<le> 25 then const_model 1000 (encode_fields sample)
            else const_model (7 / 2) (encode_fields sample)) = Finite (7 / 2)"
    by (simp add: py_int_def const_model_def)
  have 6: "max 0 (round_half_even (7 / 2)) = 4"
    by (simp add: round_half_even_def round_half_up_def frac_def)
  from predict_rounds_half_even[OF 1 2 3 4 5] 6 show ?thesis by simp
qed

text \<open>
  C3 as stated fails: when the model returns \<open>2.5\<close>, \<open>predict\<close> returns 2, and rounding
  half up gives 3.
\<close>

theorem predict_half_up_counterexample:
  "snd (predict (unscaled_state\<lparr>model_rest := Some (const_model (5 / 2))\<rparr>) sample)
     \<noteq> Inr (max 0 (round_half_up (5 / 2)))
   \<and> snd (predict (unscaled_state\<lparr>model_rest := Some (const_model (5 / 2))\<rparr>) sample) = Inr 2
   \<and> max 0 (round_half_up (5 / 2)) = 3"
proof -
  have "snd (predict (unscaled_state\<lparr>model_rest := Some (const_model (5 / 2))\<rparr>) sample) = Inr 2"
    by code_simp
  moreover have "max 0 (round_half_up (5 / 2)) = 3" by (simp add: round_half_up_def)
  ultimately show ?thesis by simp
qed

text \<open>
  C4. \<open>predict\<close> reads the age that it dispatches on from the frame that
  \<open>preprocess_input\<close> returns, that is after scaling. With a bare scaler for the rest
  band (scoped to age and income) an applicant of 26 gets the rest bundle, the scaled age
  \<open>4/41\<close> truncates to 0, and the young model is invoked: the ages 25 and 26 reach the
  same model. Here the young model answers 1000 and the rest model 2000; with no scaler
  at all the applicant of 26 reaches the rest model.
\<close>

theorem scaled_age_routes_young:
  "band_scaler scaled_state (empty_record\<lparr>Age := Some 26\<rparr>) = scaler_rest scaled_state
   \<and> map_option (\<lambda>m. m []) (model_young scaled_state) = Some (Finite 1000)
   \<and> map_option (\<lambda>m. m []) (model_rest scaled_state) = Some (Finite 2000)
   \<and> snd (predict scaled_state (empty_record\<lparr>Age := Some 25\<rparr>)) = Inr 1000
   \<and> snd (predict scaled_state (empty_record\<lparr>Age := Some 26\<rparr>)) = Inr 1000
   \<and> snd (predict unscaled_state (empty_record\<lparr>Age := Some 26\<rparr>)) = Inr 2000"
proof -
  have "band_scaler scaled_state (empty_record\<lparr>Age := Some 26\<rparr>) = scaler_rest scaled_state"
    by (simp add: band_scaler_def empty_record_def get_or_def py_int_def)
  moreover have "map_option (\<lambda>m. m []) (model_young scaled_state) = Some (Finite 1000)"
    "map_option (\<lambda>m. m []) (model_rest scaled_state) = Some (Finite 2000)"
    "snd (predict scaled_state (empty_record\<lparr>Age := Some 25\<rparr>)) = Inr 1000"
    "snd (predict scaled_state (empty_record\<lparr>Age := Some 26\<rparr>)) = Inr 1000"
    "snd (predict unscaled_state (empty_record\<lparr>Age := Some 26\<rparr>)) = Inr 2000"
    by code_simp+
  ultimately show ?thesis by simp
qed

text \<open>
  C5 (as amended). For every input record each flag of region, marital status, BMI, smoking
  and employment is 1 exactly when the value, after \<open>strip\<close>, equals the category name
  (case-sensitive); \<open>gender_Male\<close> is 1 exactly when the lowercased, untrimmed value equals
  \<open>"male"\<close>; a missing value counts as the empty string, so an unrecognised or missing
  value leaves its group at 0, and no case raises. The baseline record and the empty record
  encode with all twelve flags 0. \<open>preprocess_input\<close> returns the flags so whenever the
  bundle of the age band names none of the twelve flag columns.
\<close>

theorem one_hot_flags_trimmed:
  "get_at (encode_fields r) ''gender_Male'' = Inr (male_flag (Gender r))
   \<and> get_at (encode_fields r) ''region_Northwest'' = Inr (trimmed_flag (Region r) ''Northwest'')
   \<and> get_at (encode_fields r) ''region_Southeast'' = Inr (trimmed_flag (Region r) ''Southeast'')
   \<and> get_at (encode_fields r) ''region_Southwest'' = Inr (trimmed_flag (Region r) ''Southwest'')
   \<and> get_at (encode_fields r) ''marital_status_Unmarried''
       = Inr (trimmed_flag (Marital_Status r) ''Unmarried'')
   \<and> get_at (encode_fields r) ''bmi_category_Obesity''
       = Inr (trimmed_flag (BMI_Category r) ''Obesity'')
   \<and> get_at (encode_fields r) ''bmi_category_Overweight''
       = Inr (trimmed_flag (BMI_Category r) ''Overweight'')
   \<and> get_at (encode_fields r) ''bmi_category_Underweight''
       = Inr (trimmed_flag (BMI_Category r) ''Underweight'')
   \<and> get_at (encode_fields r) ''smoking_status_Occasional''
       = Inr (trimmed_flag (Smoking_Status r) ''Occasional'')
   \<and> get_at (encode_fields r) ''smoking_status_Regular''
       = Inr (trimmed_flag (Smoking_Status r) ''Regular'')
   \<and> get_at (encode_fields r) ''employment_status_Salaried''
       = Inr (trimmed_flag (Employment_Status r) ''Salaried'')
   \<and> get_at (encode_fields r) ''employment_status_Self-Employed''
       = Inr (trimmed_flag (Employment_Status r) ''Self-Employed'')
   \<and> map (get_at (encode_fields baseline_record)) ONE_HOT_COLUMNS = replicate 12 (Inr 0)
   \<and> map (get_at (encode_fields empty_record)) ONE_HOT_COLUMNS = replicate 12 (Inr 0)
   \<and> (preprocess_input g r = Inr df
        \<longrightarrow> (\<forall>b. ensure_scaler_format (band_scaler g r) = Inr (Some b)
                 \<longrightarrow> set (cols_to_scale b) \<inter> set ONE_HOT_COLUMNS = {})
        \<longrightarrow> map (get_at df) ONE_HOT_COLUMNS = map (get_at (encode_fields r)) ONE_HOT_COLUMNS)"
proof -
  have k: "map (get_at df) ONE_HOT_COLUMNS = map (get_at (encode_fields r)) ONE_HOT_COLUMNS"
    if "preprocess_input g r = Inr df"
      and "\<forall>b. ensure_scaler_format (band_scaler g r) = Inr (Some b)
                 \<longrightarrow> set (cols_to_scale b) \<inter> set ONE_HOT_COLUMNS = {}"
    using that preprocess_input_keeps_flags[of g r df ONE_HOT_COLUMNS] by blast
  have b: "map (get_at (encode_fields baseline_record)) ONE_HOT_COLUMNS = replicate 12 (Inr 0)"
    by code_simp
  have e: "map (get_at (encode_fields empty_record)) ONE_HOT_COLUMNS = replicate 12 (Inr 0)"
    by code_simp
  show ?thesis
    using k by (simp only: gender_encoded region_encoded flags_encoded b e simp_thms) blast
qed

theorem one_hot_flags_trimmed_witness:
  "get_at (encode_fields sample) ''gender_Male'' = Inr 1
   \<and> get_at (encode_fields sample) ''region_Southeast'' = Inr 0
   \<and> (\<exists>df. preprocess_input scaled_state sample = Inr df
          \<and> map (get_at df) ONE_HOT_COLUMNS
              = [Inr 1, Inr 1, Inr 0, Inr 0, Inr 1, Inr 0, Inr 0, Inr 0, Inr 0, Inr 0, Inr 1, Inr 0])"
proof -
  from scaled_sample_frame obtain df where df: "preprocess_input scaled_state sample = Inr df"
    by blast
  have nb: "\<forall>b. ensure_scaler_format (band_scaler scaled_state sample) = Inr (Some b)
                 \<longrightarrow> set (cols_to_scale b) \<inter> set ONE_HOT_COLUMNS = {}"
    by (simp add: scaled_sample_band ONE_HOT_COLUMNS_def EXPECTED_COLUMNS_def)
  have v: "male_flag (Gender sample) = 1" "trimmed_flag (Region sample) ''Southeast'' = 0"
    "map (get_at (encode_fields sample)) ONE_HOT_COLUMNS
       = [Inr 1, Inr 1, Inr 0, Inr 0, Inr 1, Inr 0, Inr 0, Inr 0, Inr 0, Inr 0, Inr 1, Inr 0]"
    by code_simp+
  from one_hot_flags_trimmed[of sample scaled_state df] df nb v show ?thesis by simp
qed

text \<open>
  C5 as stated fails: the region \<open>"Northwest "\<close> with a trailing blank is not exactly
  \<open>"Northwest"\<close>, and yet sets \<open>region_Northwest\<close>.
\<close>

theorem one_hot_exact_counterexample:
  "get_at (encode_fields (empty_record\<lparr>Region := Some ''Northwest ''\<rparr>)) ''region_Northwest''
     \<noteq> Inr (exact_flag (Region (empty_record\<lparr>Region := Some ''Northwest ''\<rparr>)) ''Northwest'')
   \<and> get_at (encode_fields (empty_record\<lparr>Region := Some ''Northwest ''\<rparr>)) ''region_Northwest''
       = Inr 1
   \<and> exact_flag (Region (empty_record\<lparr>Region := Some ''Northwest ''\<rparr>)) ''Northwest'' = 0"
  by code_simp

text \<open>
  C6. If the bundle selected for the age band names a column that is not among the 18
  expected columns, \<open>preprocess_input\<close> fails with the schema mismatch that lists the
  missing columns; if there is no scaler for the band, it returns the encoded frame
  unscaled and raises nothing.
\<close>

theorem scaler_schema_checked:
  "(ensure_scaler_format (band_scaler g r) = Inr (Some b)
      \<longrightarrow> \<not> set (cols_to_scale b) \<subseteq> set EXPECTED_COLUMNS
      \<longrightarrow> preprocess_input g r
            = Inl (SchemaMismatch (filter (\<lambda>c. c \<notin> set EXPECTED_COLUMNS) (cols_to_scale b))))
   \<and> (band_scaler g r = None \<longrightarrow> preprocess_input g r = Inr (encode_fields r))"
proof -
  have "filter (\<lambda>c. c \<notin> set EXPECTED_COLUMNS) (cols_to_scale b) \<noteq> []"
    if "\<not> set (cols_to_scale b) \<subseteq> set EXPECTED_COLUMNS"
    using that by (auto simp: filter_empty_conv)
  then show ?thesis by (simp add: preprocess_input_band)
qed

theorem scaler_schema_checked_witness:
  "preprocess_input
     (unscaled_state\<lparr>scaler_rest := Some (Dict (Some min_max) (Some [''age'', ''income_level'']))\<rparr>)
     sample = Inl (SchemaMismatch [''income_level''])
   \<and> preprocess_input unscaled_state sample = Inr (encode_fields sample)"
proof -
  let ?g = "unscaled_state\<lparr>scaler_rest := Some (Dict (Some min_max) (Some [''age'', ''income_level'']))\<rparr>"
  let ?b = "\<lparr>scaler = min_max, cols_to_scale = [''age'', ''income_level'']\<rparr>"
  have 1: "ensure_scaler_format (band_scaler ?g sample) = Inr (Some ?b)"
    by (simp add: band_scaler_def sample_def unscaled_state_def get_or_def py_int_def)
  have 2: "\<not> set (cols_to_scale ?b) \<subseteq> set EXPECTED_COLUMNS" by code_simp
  have 3: "filter (\<lambda>c. c \<notin> set EXPECTED_COLUMNS) (cols_to_scale ?b) = [''income_level'']"
    by code_simp
  have 4: "band_scaler unscaled_state sample = None"
    by (simp add: band_scaler_def unscaled_state_def)
  from scaler_schema_checked[of ?g sample ?b] 1 2 3 scaler_schema_checked[of unscaled_state sample ?b] 4
  show ?thesis by simp
qed

text \<open>
  C7. Importing the module never fails: \<open>load_module\<close> yields a state for every
  artifacts directory. \<open>predict\<close> on that state raises the models-unavailable error
  exactly when loading one of the two model files failed, and whether the scaler files are
  there makes no difference to that.
\<close>

theorem models_unavailable_iff:
  "(snd (predict (load_module d) r) = Inl ModelsUnavailable
      \<longleftrightarrow> isl (load_artifact ''model_young.joblib'' (model_young_joblib d))
          \<or> isl (load_artifact ''model_rest.joblib'' (model_rest_joblib d)))
   \<and> (snd (predict (load_module (d\<lparr>scaler_young_joblib := Absent, scaler_rest_joblib := Absent\<rparr>)) r)
        = Inl ModelsUnavailable
      \<longleftrightarrow> snd (predict (load_module d) r) = Inl ModelsUnavailable)"
proof -
  have main: "snd (predict (load_module d') r) = Inl ModelsUnavailable
      \<longleftrightarrow> isl (load_artifact ''model_young.joblib'' (model_young_joblib d'))
          \<or> isl (load_artifact ''model_rest.joblib'' (model_rest_joblib d'))" for d'
  proof (cases "model_young_joblib d'")
    case Absent then show ?thesis by (simp add: load_module_def predict_def)
  next
    case Unreadable then show ?thesis by (simp add: load_module_def predict_def)
  next
    case y: (Stored my)
    show ?thesis
    proof (cases "model_rest_joblib d'")
      case Absent with y show ?thesis by (simp add: load_module_def predict_def)
    next
      case Unreadable with y show ?thesis by (simp add: load_module_def predict_def)
    next
      case (Stored mr)
      with y have "model_young (load_module d') = Some my" "model_rest (load_module d') = Some mr"
        by (simp_all add: load_module_def)
      then have "snd (predict (load_module d') r) \<noteq> Inl ModelsUnavailable"
        by (rule predict_loaded)
      with y Stored show ?thesis by simp
    qed
  qed
  show ?thesis
    using main[of d] main[of "d\<lparr>scaler_young_joblib := Absent, scaler_rest_joblib := Absent\<rparr>"]
    by simp
qed

theorem models_unavailable_iff_witness:
  "snd (predict (load_module (models_only_dir\<lparr>model_rest_joblib := Absent\<rparr>)) sample)
     = Inl ModelsUnavailable
   \<and> snd (predict (load_module models_only_dir) sample) \<noteq> Inl ModelsUnavailable"
  using models_unavailable_iff[of "models_only_dir\<lparr>model_rest_joblib := Absent\<rparr>" sample]
    models_unavailable_iff[of models_only_dir sample]
  by (simp add: models_only_dir_def)

text \<open>
  C8. For every input record the insurance-plan cell that the encoder writes is 1 for
  \<open>"Bronze"\<close>, 2 for \<open>"Silver"\<close>, 3 for \<open>"Gold"\<close> and 1 for any other or missing
  value; \<open>preprocess_input\<close> returns the cell so whenever the bundle of the age band does
  not name the column \<open>insurance_plan\<close>.
\<close>

theorem plan_code_encoded:
  "get_at (encode_fields r) ''insurance_plan'' = Inr (plan_code (Insurance_Plan r))
   \<and> (preprocess_input g r = Inr df
        \<longrightarrow> (\<forall>b. ensure_scaler_format (band_scaler g r) = Inr (Some b)
                 \<longrightarrow> ''insurance_plan'' \<notin> set (cols_to_scale b))
        \<longrightarrow> get_at df ''insurance_plan'' = Inr (plan_code (Insurance_Plan r)))
   \<and> plan_code (Some ''Bronze'') = 1 \<and> plan_code (Some ''Silver'') = 2
   \<and> plan_code (Some ''Gold'') = 3 \<and> plan_code (Some ''Platinum'') = 1 \<and> plan_code None = 1"
proof -
  have "get_at df ''insurance_plan'' = Inr (plan_code (Insurance_Plan r))"
    if "preprocess_input g r = Inr df"
      and "\<forall>b. ensure_scaler_format (band_scaler g r) = Inr (Some b)
                 \<longrightarrow> ''insurance_plan'' \<notin> set (cols_to_scale b)"
    using that preprocess_input_keeps_unscaled[of g r df "''insurance_plan''"]
    by (simp add: plan_encoded)
  moreover have "plan_code (Some ''Bronze'') = 1 \<and> plan_code (Some ''Silver'') = 2
   \<and> plan_code (Some ''Gold'') = 3 \<and> plan_code (Some ''Platinum'') = 1 \<and> plan_code None = 1"
    by (simp add: plan_code_def)
  ultimately show ?thesis using plan_encoded[of r] by blast
qed

theorem plan_code_encoded_witness:
  "\<exists>df. preprocess_input scaled_state sample = Inr df \<and> get_at df ''insurance_plan'' = Inr 2
        \<and> get_at (encode_fields sample) ''insurance_plan'' = Inr 2"
proof -
  from scaled_sample_frame obtain df where df: "preprocess_input scaled_state sample = Inr df"
    by blast
  have nb: "\<forall>b. ensure_scaler_format (band_scaler scaled_state sample) = Inr (Some b)
                 \<longrightarrow> ''insurance_plan'' \<notin> set (cols_to_scale b)"
    by (simp add: scaled_sample_band)
  have p: "plan_code (Insurance_Plan sample) = 2" by (simp add: sample_def plan_code_def)
  from plan_code_encoded[of sample scaled_state df] df nb p show ?thesis by simp
qed

text \<open>
  C10. \<open>_ensure_scaler_format\<close>: no scaler gives no bundle; an object that is not a dict
  is a transform scoped to \<open>age\<close> and \<open>income_lakhs\<close>; a dict with both keys is used as
  it is; a dict that lacks either key raises, and nothing else does.
\<close>

theorem ensure_scaler_format_cases:
  "ensure_scaler_format None = Inr None
   \<and> ensure_scaler_format (Some (Bare t))
       = Inr (Some \<lparr>scaler = t, cols_to_scale = [''age'', ''income_lakhs'']\<rparr>)
   \<and> ensure_scaler_format (Some (Dict (Some t) (Some cs)))
       = Inr (Some \<lparr>scaler = t, cols_to_scale = cs\<rparr>)
   \<and> ensure_scaler_format (Some (Dict None c)) = Inl ScalerFormatError
   \<and> ensure_scaler_format (Some (Dict s None)) = Inl ScalerFormatError
   \<and> (ensure_scaler_format x = Inl ScalerFormatError
        \<longleftrightarrow> (\<exists>s c. x = Some (Dict s c) \<and> (s = None \<or> c = None)))"
  using ensure_scaler_format_error_iff[of x] by (cases s; cases c) simp_all

theorem ensure_scaler_format_cases_witness:
  "ensure_scaler_format (Some (Bare min_max))
     = Inr (Some \<lparr>scaler = min_max, cols_to_scale = [''age'', ''income_lakhs'']\<rparr>)
   \<and> ensure_scaler_format (Some (Dict (Some min_max) None)) = Inl ScalerFormatError"
  using ensure_scaler_format_cases[of min_max "[]" None "Some min_max" None] by simp

end
